theory Spec2Isabelle
  imports Complex_Main
begin

section \<open>JavaScript values\<close>

text \<open>
  The analytics service (\<^verbatim>\<open>services/analytics-service/app-clickhouse.js\<close> and
  \<^verbatim>\<open>clickhouse.js\<close>) handles request bodies parsed from JSON, rows built from them and
  rows returned by the store. All of these are JavaScript values. A finite number is
  held by its exact value (the sign of zero is not kept); the arithmetic on numbers is
  the runtime's, see \<open>env\<close>.
\<close>

datatype jsval =
    JUndefined
  | JNull
  | JBool bool
  | JNum rat
  | JNaN
  | JPosInfinity
  | JNegInfinity
  | JStr string
  | JArr "jsval list"
  | JObj "(string \<times> jsval) list"

text \<open>
  An object is the list of its own properties, each key once, as a parsed JSON object
  has them. Property read \<^verbatim>\<open>v.k\<close> for the property names the handlers use (none of
  them is inherited from a prototype): on an object the own property or
  \<^verbatim>\<open>undefined\<close>, on any other primitive or array \<^verbatim>\<open>undefined\<close>. Reading a property
  of \<^verbatim>\<open>null\<close> or \<^verbatim>\<open>undefined\<close> throws and is handled where it can happen, see
  \<open>nullish\<close>.
\<close>

fun get :: "jsval \<Rightarrow> string \<Rightarrow> jsval" where
  "get (JObj kvs) k = (case map_of kvs k of Some v \<Rightarrow> v | None \<Rightarrow> JUndefined)"
| "get _ k = JUndefined"

fun nullish :: "jsval \<Rightarrow> bool" where
  "nullish JUndefined = True"
| "nullish JNull = True"
| "nullish _ = False"

text \<open>ToBoolean: the falsy values are undefined, null, false, 0, NaN and the empty string.\<close>

fun truthy :: "jsval \<Rightarrow> bool" where
  "truthy JUndefined = False"
| "truthy JNull = False"
| "truthy (JBool b) = b"
| "truthy (JNum n) = (n \<noteq> 0)"
| "truthy JNaN = False"
| "truthy JPosInfinity = True"
| "truthy JNegInfinity = True"
| "truthy (JStr s) = (s \<noteq> [])"
| "truthy (JArr _) = True"
| "truthy (JObj _) = True"

text \<open>The operator \<^verbatim>\<open>a || b\<close>.\<close>

definition js_or :: "jsval \<Rightarrow> jsval \<Rightarrow> jsval" where
  "js_or a b = (if truthy a then a else b)"

text \<open>
  What a handler can throw: a \<^verbatim>\<open>TypeError\<close> of the language, raised by reading a
  property of \<^verbatim>\<open>null\<close> or \<^verbatim>\<open>undefined\<close>, by calling something that is not a function,
  or by converting to a string an object that has no usable \<^verbatim>\<open>toString\<close>; or the error
  with which the store client rejects a call.
\<close>

datatype type_error = PropertyOfNullish string | NotAFunction string | NotConvertible

datatype error = TypeError type_error | StoreError string

text \<open>
  What the handlers take from their runtime: the clock (\<^verbatim>\<open>new Date().toISOString()\<close>) and
  the generator \<^verbatim>\<open>uuidv4()\<close>, each called at most once per event and so indexed by
  the event's position in the submitted array; \<^verbatim>\<open>JSON.stringify\<close>; the text the engine
  gives to the \<^verbatim>\<open>message\<close> of a \<^verbatim>\<open>TypeError\<close>; the operators \<^verbatim>\<open>+\<close> and \<^verbatim>\<open>/\<close> of the
  language, with their conversions and the rounding of IEEE doubles; and, for the
  promises handed to one \<^verbatim>\<open>Promise.all\<close>, the time at which the promise at each position
  of the array settles.
\<close>

record env =
  now_iso :: "nat \<Rightarrow> string"
  uuidv4 :: "nat \<Rightarrow> string"
  stringify :: "jsval \<Rightarrow> string"
  engine_message :: "type_error \<Rightarrow> string"
  js_add :: "jsval \<Rightarrow> jsval \<Rightarrow> jsval"
  js_div :: "jsval \<Rightarrow> jsval \<Rightarrow> jsval"
  settles :: "nat \<Rightarrow> nat"

fun message :: "env \<Rightarrow> error \<Rightarrow> string" where
  "message env (TypeError t) = engine_message env t"
| "message env (StoreError m) = m"

record response =
  status :: nat
  body :: jsval

text \<open>\<^verbatim>\<open>res.json(b)\<close> answers with status 200; \<^verbatim>\<open>res.status(c).json(b)\<close> with \<open>c\<close>.\<close>

definition res_json :: "jsval \<Rightarrow> response" where
  "res_json b = \<lparr>status = 200, body = b\<rparr>"

definition res_status_json :: "nat \<Rightarrow> jsval \<Rightarrow> response" where
  "res_status_json c b = \<lparr>status = c, body = b\<rparr>"

section \<open>The store client\<close>

text \<open>
  The ClickHouse client is an external collaborator. Its tables are created by
  \<^verbatim>\<open>database/clickhouse/init/01-create-schema.sql\<close> with \<^verbatim>\<open>ENGINE = MergeTree()\<close> and
  no unique key, so a successful insert appends its rows. The store keeps, next to the
  rows of each table, the list of insert calls it has received. Whether a call fails is
  up to the environment: \<open>fault n\<close> is the error message of the \<open>n\<close>-th insert call
  issued since start, or \<open>None\<close> when that call succeeds. A failed call stores nothing.
\<close>

type_synonym row = jsval

record store =
  contents :: "string \<Rightarrow> row list"
  issued :: "(string \<times> row list) list"

type_synonym fault = "nat \<Rightarrow> string option"

definition clickhouse_insert ::
  "fault \<Rightarrow> string \<Rightarrow> row list \<Rightarrow> store \<Rightarrow> (error + unit) \<times> store" where
  "clickhouse_insert flt table vals s =
     (let s' = s\<lparr>issued := issued s @ [(table, vals)]\<rparr> in
      case flt (length (issued s)) of
        Some m \<Rightarrow> (Inl (StoreError m), s')
      | None \<Rightarrow> (Inr (), s'\<lparr>contents := (contents s')(table := contents s' table @ vals)\<rparr>))"

definition empty_store :: store where
  "empty_store = \<lparr>contents = (\<lambda>t. []), issued = []\<rparr>"

definition no_fault :: fault where
  "no_fault = (\<lambda>n. None)"

subsection \<open>insertData\<close>

text \<open>
  \<^verbatim>\<open>insertData(table, data)\<close> of \<^verbatim>\<open>clickhouse.js\<close>. The argument is an array of rows
  or a single row; a single row is wrapped. An empty array returns at once. Otherwise
  one insert is issued; its failure is logged and thrown again.
\<close>

datatype payload = Rows "row list" | Single row

record insert_result =
  success :: bool
  inserted :: nat

definition insertData ::
  "fault \<Rightarrow> string \<Rightarrow> payload \<Rightarrow> store \<Rightarrow> (error + insert_result) \<times> store" where
  "insertData flt table data s =
     (if data = Rows [] then (Inr \<lparr>success = True, inserted = 0\<rparr>, s)
      else
        let dataToInsert = (case data of Rows rs \<Rightarrow> rs | Single r \<Rightarrow> [r]) in
        case clickhouse_insert flt table dataToInsert s of
          (Inl e, s') \<Rightarrow> (Inl e, s')
        | (Inr _, s') \<Rightarrow> (Inr \<lparr>success = True, inserted = length dataToInsert\<rparr>, s'))"

text \<open>
  \<^verbatim>\<open>Promise.all\<close> over calls that have all been issued: the values of all of them in
  the order of the array, or the error of the rejected one that settles first. The
  times come from the runtime; of two rejections given the same time the one earlier
  in the array is taken.
\<close>

fun first_rejection ::
  "(nat \<Rightarrow> nat) \<Rightarrow> nat \<Rightarrow> (error + 'a) list \<Rightarrow> (nat \<times> error) option" where
  "first_rejection when i [] = None"
| "first_rejection when i (Inr v # ps) = first_rejection when (Suc i) ps"
| "first_rejection when i (Inl e # ps) =
     (case first_rejection when (Suc i) ps of
        None \<Rightarrow> Some (when i, e)
      | Some (t, e') \<Rightarrow> if when i \<le> t then Some (when i, e) else Some (t, e'))"

fun fulfilled :: "(error + 'a) list \<Rightarrow> 'a list" where
  "fulfilled [] = []"
| "fulfilled (Inr v # ps) = v # fulfilled ps"
| "fulfilled (Inl e # ps) = fulfilled ps"

definition promise_all :: "(nat \<Rightarrow> nat) \<Rightarrow> (error + 'a) list \<Rightarrow> error + 'a list" where
  "promise_all when ps =
     (case first_rejection when 0 ps of
        Some (t, e) \<Rightarrow> Inl e
      | None \<Rightarrow> Inr (fulfilled ps))"

section \<open>The event tracking endpoint\<close>

subsection \<open>Strings\<close>

text \<open>\<^verbatim>\<open>s.replace(c, r)\<close> with a one-character string pattern replaces its first occurrence.\<close>

fun replace_first :: "char \<Rightarrow> string \<Rightarrow> string \<Rightarrow> string" where
  "replace_first c r [] = []"
| "replace_first c r (x # xs) = (if x = c then r @ xs else x # replace_first c r xs)"

text \<open>\<^verbatim>\<open>s.split('.')[0]\<close>: the part of \<open>s\<close> before its first dot.\<close>

definition before_dot :: "string \<Rightarrow> string" where
  "before_dot s = takeWhile (\<lambda>c. c \<noteq> CHR ''.'') s"

text \<open>
  The timestamp of an event, lines 336 to 339: \<^verbatim>\<open>event.timestamp\<close> or, when that is
  falsy, the current time; a string holding both \<^verbatim>\<open>T\<close> and \<^verbatim>\<open>Z\<close> is rewritten to the
  store's DateTime format. \<^verbatim>\<open>includes\<close> exists on strings and on arrays only, and
  \<^verbatim>\<open>replace\<close> on strings only.
\<close>

definition format_timestamp :: "env \<Rightarrow> nat \<Rightarrow> jsval \<Rightarrow> error + jsval" where
  "format_timestamp env i event =
     (case js_or (get event ''timestamp'') (JStr (now_iso env i)) of
        JStr s \<Rightarrow>
          if CHR ''T'' \<in> set s \<and> CHR ''Z'' \<in> set s
          then Inr (JStr (before_dot (replace_first (CHR ''Z'') [] (replace_first (CHR ''T'') '' '' s))))
          else Inr (JStr s)
      | JArr xs \<Rightarrow>
          if JStr ''T'' \<in> set xs \<and> JStr ''Z'' \<in> set xs
          then Inl (TypeError (NotAFunction ''timestamp.replace''))
          else Inr (JArr xs)
      | _ \<Rightarrow> Inl (TypeError (NotAFunction ''timestamp.includes'')))"

subsection \<open>Rows\<close>

definition baseEvent :: "env \<Rightarrow> nat \<Rightarrow> jsval \<Rightarrow> jsval \<Rightarrow> jsval" where
  "baseEvent env i event timestamp = JObj
     [(''event_id'', js_or (get event ''event_id'') (JStr (uuidv4 env i))),
      (''session_id'', get event ''session_id''),
      (''user_id'', js_or (get event ''user_id'') JNull),
      (''timestamp'', timestamp)]"

text \<open>The spread \<^verbatim>\<open>...o\<close> of an object inside an object literal.\<close>

fun spread :: "jsval \<Rightarrow> (string \<times> jsval) list" where
  "spread (JObj kvs) = kvs"
| "spread _ = []"

definition page_view_row :: "jsval \<Rightarrow> jsval \<Rightarrow> row" where
  "page_view_row base event = JObj (spread base @
     [(''page_url'', get event ''page_url''),
      (''page_title'', get event ''page_title''),
      (''page_category'', get event ''page_category''),
      (''time_on_page_seconds'', js_or (get event ''time_on_page_seconds'') (JNum 0)),
      (''scroll_depth_percentage'', js_or (get event ''scroll_depth_percentage'') (JNum 0)),
      (''exit_page'', js_or (get event ''exit_page'') (JBool False)),
      (''bounce'', js_or (get event ''bounce'') (JBool False)),
      (''previous_page'', js_or (get event ''previous_page'') JNull),
      (''referrer'', js_or (get event ''referrer'') (JStr []))])"

definition game_interaction_row :: "env \<Rightarrow> jsval \<Rightarrow> jsval \<Rightarrow> row" where
  "game_interaction_row env base event = JObj (spread base @
     [(''game_id'', get event ''game_id''),
      (''game_title'', get event ''game_title''),
      (''game_category'', get event ''game_category''),
      (''event_type'', get event ''interaction_type''),
      (''event_data'', JStr (stringify env (js_or (get event ''event_data'') (JObj [])))),
      (''page_context'', js_or (get event ''page_context'') (JStr []))])"

definition search_row :: "jsval \<Rightarrow> jsval \<Rightarrow> row" where
  "search_row base event = JObj (spread base @
     [(''search_query'', get event ''search_query''),
      (''search_category'', js_or (get event ''search_category'') JNull),
      (''results_count'', js_or (get event ''results_count'') (JNum 0)),
      (''clicked_result_position'', js_or (get event ''clicked_result_position'') JNull),
      (''clicked_game_id'', js_or (get event ''clicked_game_id'') JNull),
      (''no_results'', js_or (get event ''no_results'') (JBool False))])"

definition performance_row :: "jsval \<Rightarrow> jsval \<Rightarrow> row" where
  "performance_row base event = JObj
     [(''metric_id'', get base ''event_id''),
      (''service_name'', get event ''service_name''),
      (''metric_type'', get event ''metric_type''),
      (''metric_value'', get event ''metric_value''),
      (''unit'', js_or (get event ''unit'') (JStr [])),
      (''endpoint'', js_or (get event ''endpoint'') JNull),
      (''status_code'', js_or (get event ''status_code'') JNull),
      (''error_message'', js_or (get event ''error_message'') JNull),
      (''timestamp'', get base ''timestamp'')]"

subsection \<open>Sorting the events into four arrays\<close>

record batches =
  pageViews :: "row list"
  gameInteractions :: "row list"
  searchEvents :: "row list"
  performanceMetrics :: "row list"

definition no_batches :: batches where
  "no_batches = \<lparr>pageViews = [], gameInteractions = [], searchEvents = [], performanceMetrics = []\<rparr>"

text \<open>
  The body of \<^verbatim>\<open>events.forEach\<close>, lines 334 to 402, for the event at position \<open>i\<close>. The
  \<^verbatim>\<open>switch\<close> compares \<^verbatim>\<open>event.event_type\<close> with four string constants, each case ends
  in \<^verbatim>\<open>break\<close>, and there is no \<^verbatim>\<open>default\<close>.
\<close>

definition process_event :: "env \<Rightarrow> nat \<Rightarrow> jsval \<Rightarrow> batches \<Rightarrow> error + batches" where
  "process_event env i event b =
     (if nullish event then Inl (TypeError (PropertyOfNullish ''timestamp''))
      else case format_timestamp env i event of
        Inl e \<Rightarrow> Inl e
      | Inr timestamp \<Rightarrow>
          (let base = baseEvent env i event timestamp;
               event_type = get event ''event_type''
           in if event_type = JStr ''page_view''
              then Inr (b\<lparr>pageViews := pageViews b @ [page_view_row base event]\<rparr>)
              else if event_type = JStr ''game_interaction''
              then Inr (b\<lparr>gameInteractions := gameInteractions b @ [game_interaction_row env base event]\<rparr>)
              else if event_type = JStr ''search''
              then Inr (b\<lparr>searchEvents := searchEvents b @ [search_row base event]\<rparr>)
              else if event_type = JStr ''performance''
              then Inr (b\<lparr>performanceMetrics := performanceMetrics b @ [performance_row base event]\<rparr>)
              else Inr b))"

fun forEach_events :: "env \<Rightarrow> nat \<Rightarrow> jsval list \<Rightarrow> batches \<Rightarrow> error + batches" where
  "forEach_events env i [] b = Inr b"
| "forEach_events env i (event # events) b =
     (case process_event env i event b of
        Inl e \<Rightarrow> Inl e
      | Inr b' \<Rightarrow> forEach_events env (Suc i) events b')"

definition partition_events :: "env \<Rightarrow> jsval list \<Rightarrow> error + batches" where
  "partition_events env events = forEach_events env 0 events no_batches"

subsection \<open>The handler\<close>

text \<open>
  Lines 407 to 418: an insert is issued for each array that is not empty, in this order,
  and its promise is pushed on \<^verbatim>\<open>insertPromises\<close>.
\<close>

definition push_insert ::
  "fault \<Rightarrow> string \<Rightarrow> row list \<Rightarrow> (error + insert_result) list \<times> store \<Rightarrow>
   (error + insert_result) list \<times> store" where
  "push_insert flt table rows ps =
     (if length rows > 0
      then (case insertData flt table (Rows rows) (snd ps) of (r, s') \<Rightarrow> (fst ps @ [r], s'))
      else ps)"

definition issue_inserts :: "fault \<Rightarrow> batches \<Rightarrow> store \<Rightarrow> (error + insert_result) list \<times> store" where
  "issue_inserts flt b s =
     push_insert flt ''performance_metrics'' (performanceMetrics b)
       (push_insert flt ''search_events'' (searchEvents b)
         (push_insert flt ''game_interactions'' (gameInteractions b)
           (push_insert flt ''page_views'' (pageViews b) ([], s))))"

definition events_required :: jsval where
  "events_required = JObj [(''success'', JBool False), (''error'', JStr ''Events array is required'')]"

definition events_queued :: "nat \<Rightarrow> jsval" where
  "events_queued n = JObj
     [(''success'', JBool True),
      (''message'', JStr ''Events queued for processing''),
      (''processed'', JNum (of_nat n))]"

definition events_processed :: "nat \<Rightarrow> batches \<Rightarrow> jsval" where
  "events_processed n b = JObj
     [(''success'', JBool True),
      (''message'', JStr ''Events processed successfully''),
      (''processed'', JObj
         [(''total'', JNum (of_nat n)),
          (''page_views'', JNum (of_nat (length (pageViews b)))),
          (''game_interactions'', JNum (of_nat (length (gameInteractions b)))),
          (''search_events'', JNum (of_nat (length (searchEvents b)))),
          (''performance_metrics'', JNum (of_nat (length (performanceMetrics b))))])]"

definition events_failed :: "env \<Rightarrow> error \<Rightarrow> jsval" where
  "events_failed env e = JObj
     [(''success'', JBool False),
      (''error'', JStr ''Failed to process analytics events''),
      (''message'', JStr (message env e))]"

text \<open>
  The \<^verbatim>\<open>try\<close> block of \<^verbatim>\<open>POST /api/analytics/events\<close>, lines 309 to 432, on the parsed
  request body. \<open>clickhouseConnected\<close> is the module variable of that name.
\<close>

definition post_events_try ::
  "env \<Rightarrow> bool \<Rightarrow> fault \<Rightarrow> jsval \<Rightarrow> store \<Rightarrow> (error + response) \<times> store" where
  "post_events_try env clickhouseConnected flt req_body s =
     (if nullish req_body then (Inl (TypeError (PropertyOfNullish ''events'')), s)
      else case get req_body ''events'' of
        JArr events \<Rightarrow>
          if length events = 0 then (Inr (res_status_json 400 events_required), s)
          else if \<not> clickhouseConnected then (Inr (res_json (events_queued (length events))), s)
          else (case partition_events env events of
                  Inl e \<Rightarrow> (Inl e, s)
                | Inr b \<Rightarrow>
                    (case issue_inserts flt b s of
                       (insertPromises, s') \<Rightarrow>
                         (case promise_all (settles env) insertPromises of
                            Inl e \<Rightarrow> (Inl e, s')
                          | Inr _ \<Rightarrow> (Inr (res_json (events_processed (length events) b)), s'))))
      | _ \<Rightarrow> (Inr (res_status_json 400 events_required), s))"

text \<open>The handler with its \<^verbatim>\<open>catch\<close>, lines 434 to 441.\<close>

definition post_events :: "env \<Rightarrow> bool \<Rightarrow> fault \<Rightarrow> jsval \<Rightarrow> store \<Rightarrow> response \<times> store" where
  "post_events env clickhouseConnected flt req_body s =
     (case post_events_try env clickhouseConnected flt req_body s of
        (Inl e, s') \<Rightarrow> (res_status_json 500 (events_failed env e), s')
      | (Inr r, s') \<Rightarrow> (r, s'))"

section \<open>The dashboard endpoint\<close>

text \<open>
  \<^verbatim>\<open>executeQuery\<close> of \<^verbatim>\<open>clickhouse.js\<close> sends a query text to the store and returns the
  rows of the answer, or logs and throws the store's error again. The store's side is a
  parameter: what it answers to a query text, an error message or rows. Rows come in the
  format \<^verbatim>\<open>JSONEachRow\<close>, one object per row.
\<close>

type_synonym srow = "(string \<times> jsval) list"

type_synonym query_engine = "string \<Rightarrow> string + srow list"

definition executeQuery :: "query_engine \<Rightarrow> string \<Rightarrow> error + srow list" where
  "executeQuery exec query =
     (case exec query of Inl m \<Rightarrow> Inl (StoreError m) | Inr rows \<Rightarrow> Inr rows)"

text \<open>
  A parameter of the query string as the framework's parser gives it in
  \<^verbatim>\<open>req.query\<close>: a string, an array when the key is repeated, or an object when the key
  carries brackets. Spliced into a template it is converted to a string: an array is
  its elements so converted and joined by commas; an object is \<^verbatim>\<open>[object Object]\<close>,
  unless it has a property \<^verbatim>\<open>toString\<close> of its own, which is then no function, and
  the conversion throws a \<^verbatim>\<open>TypeError\<close> (\<open>None\<close>).
\<close>

datatype qsval = QStr string | QArr "qsval list" | QObj "(string \<times> qsval) list"

fun join_comma :: "string list \<Rightarrow> string" where
  "join_comma [] = []"
| "join_comma [s] = s"
| "join_comma (s # t # ss) = s @ '','' @ join_comma (t # ss)"

fun template_text :: "qsval \<Rightarrow> string option" where
  "template_text (QStr s) = Some s"
| "template_text (QArr vs) = map_option join_comma (those (map template_text vs))"
| "template_text (QObj kvs) =
     (if ''toString'' \<in> set (map fst kvs) then None else Some ''[object Object]'')"

fun qs_value :: "qsval \<Rightarrow> jsval" where
  "qs_value (QStr s) = JStr s"
| "qs_value (QArr vs) = JArr (map qs_value vs)"
| "qs_value (QObj kvs) = JObj (map (\<lambda>(k, v). (k, qs_value v)) kvs)"

text \<open>
  The four queries of the dashboard. Each function builds its query text from a
  template with \<^verbatim>\<open>timeRange\<close> spliced in as it is, and executes it; each run of
  white space inside a template is written as one space, and the white space at its two
  ends is left out. The handler calls the first with the parameter of the request and
  the other three with a string constant.
\<close>

definition realtime_query :: "string \<Rightarrow> string" where
  "realtime_query timeRange =
     (''SELECT toStartOfMinute(timestamp) as minute, count() as page_views, '' @
      ''uniq(session_id) as unique_sessions, uniq(user_id) as unique_users, '' @
      ''avg(time_on_page_seconds) as avg_time_on_page FROM page_views '' @
      ''WHERE timestamp >= now() - INTERVAL '' @ timeRange @
      '' GROUP BY minute ORDER BY minute DESC LIMIT 60'')"

definition getRealTimeMetrics :: "query_engine \<Rightarrow> qsval \<Rightarrow> error + srow list" where
  "getRealTimeMetrics exec timeRange =
     (case template_text timeRange of
        None \<Rightarrow> Inl (TypeError NotConvertible)
      | Some text \<Rightarrow> executeQuery exec (realtime_query text))"

definition game_popularity_query :: "string \<Rightarrow> string" where
  "game_popularity_query timeRange =
     (''SELECT gi.game_title, gi.game_category, count() as total_interactions, '' @
      ''uniq(gi.session_id) as unique_sessions, countIf(gi.event_type = 'view') as views, '' @
      ''countIf(gi.event_type = 'add_to_cart') as cart_additions, '' @
      ''countIf(gi.event_type = 'purchase') as purchases, '' @
      ''round(countIf(gi.event_type = 'purchase') / countIf(gi.event_type = 'view') * 100, 2) '' @
      ''as conversion_rate FROM game_interactions gi '' @
      ''WHERE gi.timestamp >= now() - INTERVAL '' @ timeRange @
      '' GROUP BY gi.game_title, gi.game_category ORDER BY total_interactions DESC LIMIT 20'')"

definition getGamePopularity :: "query_engine \<Rightarrow> string \<Rightarrow> error + srow list" where
  "getGamePopularity exec timeRange = executeQuery exec (game_popularity_query timeRange)"

definition conversion_funnel_query :: "string \<Rightarrow> string" where
  "conversion_funnel_query timeRange =
     (''SELECT funnel_step, count() as step_count, uniq(session_id) as unique_sessions, '' @
      ''sum(total_amount) as revenue FROM purchase_events '' @
      ''WHERE purchase_timestamp >= now() - INTERVAL '' @ timeRange @
      '' GROUP BY funnel_step ORDER BY CASE funnel_step WHEN 'view' THEN 1 '' @
      ''WHEN 'add_to_cart' THEN 2 WHEN 'checkout' THEN 3 WHEN 'purchase' THEN 4 ELSE 5 END'')"

definition getConversionFunnel :: "query_engine \<Rightarrow> string \<Rightarrow> error + srow list" where
  "getConversionFunnel exec timeRange = executeQuery exec (conversion_funnel_query timeRange)"

definition user_behavior_query :: "string \<Rightarrow> string" where
  "user_behavior_query timeRange =
     (''SELECT toStartOfDay(session_start_time) as date, count() as total_sessions, '' @
      ''uniq(user_id) as unique_users, avg(session_duration_seconds) as avg_session_duration, '' @
      ''avg(page_views) as avg_pages_per_session, countIf(page_views = 1) as bounce_sessions, '' @
      ''round(countIf(page_views = 1) / count() * 100, 2) as bounce_rate FROM user_sessions '' @
      ''WHERE session_start_time >= now() - INTERVAL '' @ timeRange @
      '' GROUP BY date ORDER BY date DESC'')"

definition getUserBehaviorMetrics :: "query_engine \<Rightarrow> string \<Rightarrow> error + srow list" where
  "getUserBehaviorMetrics exec timeRange = executeQuery exec (user_behavior_query timeRange)"

text \<open>
  The summary. Its sums and averages are computed with the runtime's \<^verbatim>\<open>+\<close> and \<^verbatim>\<open>/\<close>
  on whatever values the rows hold.
\<close>

definition field :: "srow \<Rightarrow> string \<Rightarrow> jsval" where
  "field r k = get (JObj r) k"

text \<open>\<^verbatim>\<open>rows.reduce((sum, r) => sum + r.k, 0)\<close>\<close>

definition reduce_sum :: "env \<Rightarrow> string \<Rightarrow> srow list \<Rightarrow> jsval" where
  "reduce_sum env k rows = foldl (\<lambda>sum r. js_add env sum (field r k)) (JNum 0) rows"

text \<open>\<^verbatim>\<open>rows.length > 0 ? rows.reduce((sum, r) => sum + r.k, 0) / rows.length : 0\<close>\<close>

definition reduce_avg :: "env \<Rightarrow> string \<Rightarrow> srow list \<Rightarrow> jsval" where
  "reduce_avg env k rows =
     (if length rows > 0
      then js_div env (reduce_sum env k rows) (JNum (of_nat (length rows)))
      else JNum 0)"

definition dashboard_summary :: "env \<Rightarrow> srow list \<Rightarrow> srow list \<Rightarrow> jsval" where
  "dashboard_summary env realtimeMetrics userBehavior =
     (let totalPageViews = reduce_sum env ''page_views'' realtimeMetrics;
          totalSessions = reduce_sum env ''unique_sessions'' realtimeMetrics;
          totalUsers = reduce_sum env ''unique_users'' realtimeMetrics
      in JObj
         [(''total_page_views'', totalPageViews),
          (''total_sessions'', totalSessions),
          (''total_users'', totalUsers),
          (''avg_session_duration'', reduce_avg env ''avg_session_duration'' userBehavior),
          (''bounce_rate'', reduce_avg env ''bounce_rate'' userBehavior)])"

definition rows_json :: "srow list \<Rightarrow> jsval" where
  "rows_json rows = JArr (map JObj rows)"

definition dashboard_data ::
  "jsval \<Rightarrow> srow list \<Rightarrow> srow list \<Rightarrow> srow list \<Rightarrow> srow list \<Rightarrow> jsval \<Rightarrow> jsval" where
  "dashboard_data summary realtimeMetrics gamePopularity conversionFunnel userBehavior timeRange =
     JObj
       [(''success'', JBool True),
        (''data'', JObj
           [(''summary'', summary),
            (''realtime_metrics'', rows_json (take 60 realtimeMetrics)),
            (''top_games'', rows_json (take 10 gamePopularity)),
            (''conversion_funnel'', rows_json conversionFunnel),
            (''daily_metrics'', rows_json (take 7 userBehavior)),
            (''timeRange'', timeRange)])]"

definition dashboard_unavailable :: jsval where
  "dashboard_unavailable = JObj
     [(''success'', JBool False),
      (''error'', JStr ''ClickHouse not available''),
      (''message'', JStr ''Analytics database is not connected'')]"

definition dashboard_failed :: "env \<Rightarrow> error \<Rightarrow> jsval" where
  "dashboard_failed env e = JObj
     [(''success'', JBool False),
      (''error'', JStr ''Failed to fetch dashboard analytics''),
      (''message'', JStr (message env e))]"

text \<open>\<^verbatim>\<open>const { timeRange = '24 HOUR' } = req.query\<close>, with \<open>None\<close> for an absent parameter.\<close>

definition timeRange_of :: "qsval option \<Rightarrow> qsval" where
  "timeRange_of q = (case q of None \<Rightarrow> QStr ''24 HOUR'' | Some t \<Rightarrow> t)"

text \<open>
  \<^verbatim>\<open>GET /api/analytics/dashboard\<close>, lines 80 to 137. The four queries are issued
  together, the last three always for \<^verbatim>\<open>7 DAY\<close>, and awaited with \<^verbatim>\<open>Promise.all\<close>; its
  result is destructured into four variables, which are \<^verbatim>\<open>undefined\<close> where the array
  is shorter, so that the \<^verbatim>\<open>reduce\<close> on the first would throw.
\<close>

definition get_dashboard ::
  "env \<Rightarrow> bool \<Rightarrow> query_engine \<Rightarrow> qsval option \<Rightarrow> response" where
  "get_dashboard env clickhouseConnected exec q =
     (let timeRange = timeRange_of q in
      if \<not> clickhouseConnected then res_status_json 503 dashboard_unavailable
      else
        case promise_all (settles env)
            [getRealTimeMetrics exec timeRange,
             getGamePopularity exec ''7 DAY'',
             getConversionFunnel exec ''7 DAY'',
             getUserBehaviorMetrics exec ''7 DAY''] of
          Inl e \<Rightarrow> res_status_json 500 (dashboard_failed env e)
        | Inr (realtimeMetrics # gamePopularity # conversionFunnel # userBehavior # _) \<Rightarrow>
            res_json (dashboard_data (dashboard_summary env realtimeMetrics userBehavior)
              realtimeMetrics gamePopularity conversionFunnel userBehavior (qs_value timeRange))
        | Inr _ \<Rightarrow>
            res_status_json 500 (dashboard_failed env (TypeError (PropertyOfNullish ''reduce''))))"

section \<open>Notions used to state the properties\<close>

text \<open>The error, if any, with which a call was rejected.\<close>

definition rejection :: "error + 'a \<Rightarrow> error option" where
  "rejection r = (case r of Inl e \<Rightarrow> Some e | Inr _ \<Rightarrow> None)"

text \<open>The four values of \<^verbatim>\<open>event_type\<close> that the \<^verbatim>\<open>switch\<close> has a case for.\<close>

definition known_type :: "jsval \<Rightarrow> bool" where
  "known_type t =
     (t \<in> {JStr ''page_view'', JStr ''game_interaction'', JStr ''search'', JStr ''performance''})"

definition has_type :: "string \<Rightarrow> nat \<times> jsval \<Rightarrow> bool" where
  "has_type t = (\<lambda>(i, event). get event ''event_type'' = JStr t)"

text \<open>
  The row that the event at position \<open>i\<close> gives in each of the four arrays, and the
  identifier it is stored under, for an event whose timestamp raises no error.
\<close>

definition timestamp_of :: "env \<Rightarrow> nat \<Rightarrow> jsval \<Rightarrow> jsval" where
  "timestamp_of env i event =
     (case format_timestamp env i event of Inr ts \<Rightarrow> ts | Inl _ \<Rightarrow> JUndefined)"

definition page_view_at :: "env \<Rightarrow> nat \<times> jsval \<Rightarrow> row" where
  "page_view_at env =
     (\<lambda>(i, event). page_view_row (baseEvent env i event (timestamp_of env i event)) event)"

definition game_interaction_at :: "env \<Rightarrow> nat \<times> jsval \<Rightarrow> row" where
  "game_interaction_at env =
     (\<lambda>(i, event). game_interaction_row env (baseEvent env i event (timestamp_of env i event)) event)"

definition search_at :: "env \<Rightarrow> nat \<times> jsval \<Rightarrow> row" where
  "search_at env =
     (\<lambda>(i, event). search_row (baseEvent env i event (timestamp_of env i event)) event)"

definition performance_at :: "env \<Rightarrow> nat \<times> jsval \<Rightarrow> row" where
  "performance_at env =
     (\<lambda>(i, event). performance_row (baseEvent env i event (timestamp_of env i event)) event)"

definition event_id_at :: "env \<Rightarrow> nat \<times> jsval \<Rightarrow> jsval" where
  "event_id_at env = (\<lambda>(i, event). js_or (get event ''event_id'') (JStr (uuidv4 env i)))"

text \<open>The tables that get an insert, with their rows: those whose array is not empty.\<close>

definition handed_over :: "batches \<Rightarrow> (string \<times> row list) list" where
  "handed_over b = filter (\<lambda>(table, rows). rows \<noteq> [])
     [(''page_views'', pageViews b),
      (''game_interactions'', gameInteractions b),
      (''search_events'', searchEvents b),
      (''performance_metrics'', performanceMetrics b)]"

text \<open>
  The texts of the four queries that one dashboard request sends to the store, for the
  text of its range.
\<close>

definition dashboard_queries :: "string \<Rightarrow> string list" where
  "dashboard_queries rangeText =
     [realtime_query rangeText,
      game_popularity_query ''7 DAY'',
      conversion_funnel_query ''7 DAY'',
      user_behavior_query ''7 DAY'']"

definition zero_summary :: jsval where
  "zero_summary = JObj
     [(''total_page_views'', JNum 0),
      (''total_sessions'', JNum 0),
      (''total_users'', JNum 0),
      (''avg_session_duration'', JNum 0),
      (''bounce_rate'', JNum 0)]"

subsection \<open>Sample inputs\<close>

text \<open>
  A runtime for the samples. Its \<^verbatim>\<open>+\<close> and \<^verbatim>\<open>/\<close> are exact on finite numbers, which is
  what IEEE arithmetic gives on the small integers of the samples; no sample applies
  them to anything that is not a number. Its promises settle in the order of their
  array.
\<close>

fun sample_add :: "jsval \<Rightarrow> jsval \<Rightarrow> jsval" where
  "sample_add (JNum a) (JNum b) = JNum (a + b)"
| "sample_add _ _ = JNaN"

fun sample_div :: "jsval \<Rightarrow> jsval \<Rightarrow> jsval" where
  "sample_div (JNum a) (JNum b) =
     (if b \<noteq> 0 then JNum (a / b)
      else if 0 < a then JPosInfinity else if a < 0 then JNegInfinity else JNaN)"
| "sample_div _ _ = JNaN"

definition sample_env :: env where
  "sample_env =
     \<lparr>now_iso = (\<lambda>i. ''2025-01-20T10:00:00.000Z''),
      uuidv4 = (\<lambda>i. ''uuid-'' @ replicate i (CHR ''x'')),
      stringify = (\<lambda>v. ''{}''),
      engine_message = (\<lambda>t. ''TypeError''),
      js_add = sample_add,
      js_div = sample_div,
      settles = (\<lambda>i. i)\<rparr>"

definition page_view_event :: "string \<Rightarrow> jsval" where
  "page_view_event eid = JObj
     [(''event_type'', JStr ''page_view''),
      (''event_id'', JStr eid),
      (''session_id'', JStr ''test_session''),
      (''page_url'', JStr ''/''),
      (''page_title'', JStr ''Home'')]"

definition search_event :: "string \<Rightarrow> jsval" where
  "search_event eid = JObj
     [(''event_type'', JStr ''search''),
      (''event_id'', JStr eid),
      (''session_id'', JStr ''test_session''),
      (''search_query'', JStr ''racing'')]"

definition bogus_event :: jsval where
  "bogus_event = JObj [(''kind'', JStr ''bogus''), (''event_type'', JStr ''bogus'')]"

definition events_body :: "jsval list \<Rightarrow> jsval" where
  "events_body events = JObj [(''events'', JArr events)]"

definition sample_events :: "jsval list" where
  "sample_events =
     [page_view_event ''e1'', bogus_event, search_event ''e2'', page_view_event ''e3'']"

definition sample_batches :: batches where
  "sample_batches =
     \<lparr>pageViews = [page_view_at sample_env (0, page_view_event ''e1''),
                   page_view_at sample_env (3, page_view_event ''e3'')],
      gameInteractions = [],
      searchEvents = [search_at sample_env (2, search_event ''e2'')],
      performanceMetrics = []\<rparr>"

definition redelivered_events :: "jsval list" where
  "redelivered_events = [page_view_event ''e1'', page_view_event ''e1'']"

definition redelivered_batches :: batches where
  "redelivered_batches =
     \<lparr>pageViews = [page_view_at sample_env (0, page_view_event ''e1''),
                   page_view_at sample_env (1, page_view_event ''e1'')],
      gameInteractions = [],
      searchEvents = [],
      performanceMetrics = []\<rparr>"

text \<open>A store that is down, and one whose first three inserts time out.\<close>

definition store_down :: fault where
  "store_down = (\<lambda>n. Some ''connect ECONNREFUSED'')"

definition fails_three_times :: fault where
  "fails_three_times = (\<lambda>n. if n < 3 then Some ''Timeout error.'' else None)"

text \<open>
  A store without rows that rejects the real-time query for one given range, and a
  store whose only rows are one day of sessions in the last week.
\<close>

definition rejects_range :: "string \<Rightarrow> query_engine" where
  "rejects_range bad = (\<lambda>query. if query = realtime_query bad then Inl ''Syntax error'' else Inr [])"

definition sessions_last_week :: query_engine where
  "sessions_last_week =
     (\<lambda>query. if query = user_behavior_query ''7 DAY''
        then Inr [[(''date'', JStr ''2025-01-18 00:00:00''),
                   (''total_sessions'', JNum 4),
                   (''avg_session_duration'', JNum 120),
                   (''bounce_rate'', JNum 50)]]
        else Inr [])"

definition no_rows :: query_engine where
  "no_rows = (\<lambda>query. Inr [])"

section \<open>Evaluation on concrete inputs\<close>

lemmas js_defs = js_or_def res_json_def res_status_json_def

lemmas store_defs = clickhouse_insert_def insertData_def empty_store_def no_fault_def

lemmas events_defs = promise_all_def before_dot_def format_timestamp_def baseEvent_def page_view_row_def
  game_interaction_row_def search_row_def performance_row_def no_batches_def process_event_def
  partition_events_def push_insert_def issue_inserts_def events_required_def events_queued_def
  events_processed_def events_failed_def post_events_try_def post_events_def

lemmas dashboard_defs = executeQuery_def realtime_query_def getRealTimeMetrics_def
  game_popularity_query_def getGamePopularity_def conversion_funnel_query_def
  getConversionFunnel_def user_behavior_query_def getUserBehaviorMetrics_def field_def
  reduce_sum_def reduce_avg_def dashboard_summary_def rows_json_def dashboard_data_def
  dashboard_unavailable_def dashboard_failed_def timeRange_of_def promise_all_def
  get_dashboard_def

lemmas sample_defs = sample_env_def page_view_event_def search_event_def bogus_event_def
  events_body_def store_down_def fails_three_times_def rejects_range_def
  sessions_last_week_def no_rows_def sample_events_def sample_batches_def
  redelivered_events_def redelivered_batches_def

lemmas statement_defs = rejection_def known_type_def has_type_def timestamp_of_def
  page_view_at_def game_interaction_at_def search_at_def performance_at_def event_id_at_def
  handed_over_def zero_summary_def

section \<open>Properties of insertData\<close>

lemma insertData_empty:
  "insertData flt table (Rows []) s = (Inr \<lparr>success = True, inserted = 0\<rparr>, s)"
  by (simp add: insertData_def)

lemma insertData_issued:
  "rs \<noteq> [] \<Longrightarrow> issued (snd (insertData flt table (Rows rs) s)) = issued s @ [(table, rs)]"
  by (simp add: insertData_def clickhouse_insert_def Let_def split: option.splits)

lemma insertData_ok:
  "rs \<noteq> [] \<Longrightarrow> flt (length (issued s)) = None \<Longrightarrow>
   insertData flt table (Rows rs) s =
     (Inr \<lparr>success = True, inserted = length rs\<rparr>,
      s\<lparr>issued := issued s @ [(table, rs)],
        contents := (contents s)(table := contents s table @ rs)\<rparr>)"
  by (simp add: insertData_def clickhouse_insert_def Let_def)

lemma insertData_fail:
  "rs \<noteq> [] \<Longrightarrow> flt (length (issued s)) = Some m \<Longrightarrow>
   insertData flt table (Rows rs) s =
     (Inl (StoreError m), s\<lparr>issued := issued s @ [(table, rs)]\<rparr>)"
  by (simp add: insertData_def clickhouse_insert_def Let_def)

text \<open>
  Claim C10. Called with an empty array, \<open>insertData\<close> returns
  \<open>{success: true, inserted: 0}\<close> and leaves the store as it was, its list of received
  insert calls included: no insert is issued. Called with a non-empty array of \<open>n\<close>
  rows it issues one insert; when the store accepts it the result is
  \<open>{success: true, inserted: n}\<close>, and when the store fails the store's error is thrown.
\<close>

theorem insertData_contract:
  "insertData flt table (Rows []) s = (Inr \<lparr>success = True, inserted = 0\<rparr>, s) \<and>
   (rs \<noteq> [] \<longrightarrow>
      issued (snd (insertData flt table (Rows rs) s)) = issued s @ [(table, rs)] \<and>
      (flt (length (issued s)) = None \<longrightarrow>
         fst (insertData flt table (Rows rs) s) =
           Inr \<lparr>success = True, inserted = length rs\<rparr>) \<and>
      (\<forall>m. flt (length (issued s)) = Some m \<longrightarrow>
         fst (insertData flt table (Rows rs) s) = Inl (StoreError m)))"
  by (simp add: insertData_empty insertData_issued insertData_ok insertData_fail)

theorem insertData_contract_witness:
  "[page_view_event ''e1'', page_view_event ''e2''] \<noteq> [] \<and>
   no_fault (length (issued empty_store)) = None \<and>
   store_down (length (issued empty_store)) = Some ''connect ECONNREFUSED'' \<and>
   insertData no_fault ''page_views'' (Rows []) empty_store =
     (Inr \<lparr>success = True, inserted = 0\<rparr>, empty_store) \<and>
   issued (snd (insertData no_fault ''page_views''
       (Rows [page_view_event ''e1'', page_view_event ''e2'']) empty_store)) =
     [(''page_views'', [page_view_event ''e1'', page_view_event ''e2''])] \<and>
   fst (insertData no_fault ''page_views''
       (Rows [page_view_event ''e1'', page_view_event ''e2'']) empty_store) =
     Inr \<lparr>success = True, inserted = 2\<rparr> \<and>
   fst (insertData store_down ''page_views''
       (Rows [page_view_event ''e1'', page_view_event ''e2'']) empty_store) =
     Inl (StoreError ''connect ECONNREFUSED'')"
  using
    insertData_contract [of no_fault "''page_views''" empty_store
      "[page_view_event ''e1'', page_view_event ''e2'']"]
    insertData_contract [of store_down "''page_views''" empty_store
      "[page_view_event ''e1'', page_view_event ''e2'']"]
  by (simp add: no_fault_def store_down_def empty_store_def)

text \<open>
  Claim C6 (as amended). A batch write that hits a store failure is not tried again and
  is handed to no other sink: \<open>insertData\<close> issues its single insert, throws the store's
  error to its caller, and the tables of the store are as they were before the call.
\<close>

theorem insertData_single_attempt:
  assumes "rs \<noteq> []" and "flt (length (issued s)) = Some m"
  shows "fst (insertData flt table (Rows rs) s) = Inl (StoreError m) \<and>
         issued (snd (insertData flt table (Rows rs) s)) = issued s @ [(table, rs)] \<and>
         contents (snd (insertData flt table (Rows rs) s)) = contents s"
  using assms by (simp add: insertData_fail)

theorem insertData_single_attempt_witness:
  "[page_view_event ''e1''] \<noteq> [] \<and>
   fails_three_times (length (issued empty_store)) = Some ''Timeout error.'' \<and>
   fst (insertData fails_three_times ''page_views'' (Rows [page_view_event ''e1'']) empty_store) =
     Inl (StoreError ''Timeout error.'') \<and>
   issued (snd (insertData fails_three_times ''page_views'' (Rows [page_view_event ''e1''])
     empty_store)) = [(''page_views'', [page_view_event ''e1''])] \<and>
   contents (snd (insertData fails_three_times ''page_views'' (Rows [page_view_event ''e1''])
     empty_store)) ''page_views'' = []"
proof -
  have h1: "[page_view_event ''e1''] \<noteq> []" by simp
  have h2: "fails_three_times (length (issued empty_store)) = Some ''Timeout error.''"
    by (simp add: fails_three_times_def empty_store_def)
  show ?thesis
    using h1 h2
      insertData_single_attempt [where flt = fails_three_times and s = empty_store
        and table = "''page_views''", OF h1 h2]
    by (simp add: empty_store_def)
qed

text \<open>
  The claim C6 as it was stated fails: with a store whose first three inserts time out
  and whose fourth would succeed, one call of \<open>insertData\<close> makes one attempt, throws,
  and the batch is in no table; through the endpoint the caller gets status 500.
\<close>

theorem no_retry_counterexample:
  "fst (insertData fails_three_times ''page_views'' (Rows [page_view_event ''e1'']) empty_store) =
     Inl (StoreError ''Timeout error.'') \<and>
   length (issued (snd (insertData fails_three_times ''page_views''
     (Rows [page_view_event ''e1'']) empty_store))) = 1 \<and>
   contents (snd (insertData fails_three_times ''page_views''
     (Rows [page_view_event ''e1'']) empty_store)) ''page_views'' = [] \<and>
   status (fst (post_events sample_env True fails_three_times
     (events_body [page_view_event ''e1'']) empty_store)) = 500 \<and>
   contents (snd (post_events sample_env True fails_three_times
     (events_body [page_view_event ''e1'']) empty_store)) ''page_views'' = []"
  by (simp add: js_defs store_defs events_defs sample_defs Let_def)

section \<open>Sorting events into the four arrays\<close>

lemma process_event_Inr:
  assumes "process_event env i e b = Inr b'"
  shows "\<exists>ts. format_timestamp env i e = Inr ts \<and>
     b' = (let base = baseEvent env i e ts; event_type = get e ''event_type'' in
           if event_type = JStr ''page_view''
           then b\<lparr>pageViews := pageViews b @ [page_view_row base e]\<rparr>
           else if event_type = JStr ''game_interaction''
           then b\<lparr>gameInteractions := gameInteractions b @ [game_interaction_row env base e]\<rparr>
           else if event_type = JStr ''search''
           then b\<lparr>searchEvents := searchEvents b @ [search_row base e]\<rparr>
           else if event_type = JStr ''performance''
           then b\<lparr>performanceMetrics := performanceMetrics b @ [performance_row base e]\<rparr>
           else b)"
  using assms by (auto simp: process_event_def Let_def split: if_splits sum.splits)

lemma process_event_rows:
  assumes "process_event env i e b = Inr b1"
  shows "pageViews b1 =
      pageViews b @ map (page_view_at env) (filter (has_type ''page_view'') [(i, e)])"
    and "gameInteractions b1 =
      gameInteractions b @
      map (game_interaction_at env) (filter (has_type ''game_interaction'') [(i, e)])"
    and "searchEvents b1 =
      searchEvents b @ map (search_at env) (filter (has_type ''search'') [(i, e)])"
    and "performanceMetrics b1 =
      performanceMetrics b @
      map (performance_at env) (filter (has_type ''performance'') [(i, e)])"
  using process_event_Inr [OF assms]
  by (auto simp: Let_def timestamp_of_def page_view_at_def game_interaction_at_def search_at_def
      performance_at_def has_type_def)

lemma forEach_step:
  assumes "forEach_events env i (e # events) b = Inr b'"
  obtains b1 where "process_event env i e b = Inr b1"
    and "forEach_events env (Suc i) events b1 = Inr b'"
  using assms by (auto split: sum.splits)

lemma forEach_rows:
  "forEach_events env i events b = Inr b' \<Longrightarrow>
   pageViews b' =
     pageViews b @ map (page_view_at env) (filter (has_type ''page_view'') (enumerate i events)) \<and>
   gameInteractions b' =
     gameInteractions b @
     map (game_interaction_at env) (filter (has_type ''game_interaction'') (enumerate i events)) \<and>
   searchEvents b' =
     searchEvents b @ map (search_at env) (filter (has_type ''search'') (enumerate i events)) \<and>
   performanceMetrics b' =
     performanceMetrics b @
     map (performance_at env) (filter (has_type ''performance'') (enumerate i events))"
proof (induction events arbitrary: i b)
  case Nil
  then show ?case by simp
next
  case (Cons e events)
  from Cons.prems obtain b1 where step: "process_event env i e b = Inr b1"
    and rest: "forEach_events env (Suc i) events b1 = Inr b'"
    by (rule forEach_step)
  show ?case
    using Cons.IH [OF rest] process_event_rows [OF step] by simp
qed

lemma partition_rows:
  assumes "partition_events env events = Inr b"
  shows "pageViews b =
      map (page_view_at env) (filter (has_type ''page_view'') (enumerate 0 events))"
    and "gameInteractions b =
      map (game_interaction_at env) (filter (has_type ''game_interaction'') (enumerate 0 events))"
    and "searchEvents b =
      map (search_at env) (filter (has_type ''search'') (enumerate 0 events))"
    and "performanceMetrics b =
      map (performance_at env) (filter (has_type ''performance'') (enumerate 0 events))"
  using forEach_rows [of env 0 events no_batches b] assms
  by (simp_all add: partition_events_def no_batches_def)

lemma process_event_total:
  "process_event env i e b = Inr b1 \<Longrightarrow>
   length (pageViews b1) + length (gameInteractions b1) + length (searchEvents b1) +
     length (performanceMetrics b1) =
   length (pageViews b) + length (gameInteractions b) + length (searchEvents b) +
     length (performanceMetrics b) + (if known_type (get e ''event_type'') then 1 else 0)"
  by (drule process_event_Inr) (auto simp: Let_def known_type_def)

lemma forEach_total:
  "forEach_events env i events b = Inr b' \<Longrightarrow>
   length (pageViews b') + length (gameInteractions b') + length (searchEvents b') +
     length (performanceMetrics b') =
   length (pageViews b) + length (gameInteractions b) + length (searchEvents b) +
     length (performanceMetrics b) +
     length (filter (\<lambda>e. known_type (get e ''event_type'')) events)"
proof (induction events arbitrary: i b)
  case Nil
  then show ?case by simp
next
  case (Cons e events)
  from Cons.prems obtain b1 where step: "process_event env i e b = Inr b1"
    and rest: "forEach_events env (Suc i) events b1 = Inr b'"
    by (rule forEach_step)
  show ?case
    using Cons.IH [OF rest] process_event_total [OF step] by simp
qed

lemma partition_total:
  assumes "partition_events env events = Inr b"
  shows "length (pageViews b) + length (gameInteractions b) + length (searchEvents b) +
     length (performanceMetrics b) =
     length (filter (\<lambda>e. known_type (get e ''event_type'')) events)"
  using forEach_total [of env 0 events no_batches b] assms
  by (simp add: partition_events_def no_batches_def)

lemma unknown_types_no_batches:
  assumes "partition_events env events = Inr b"
    and "\<forall>e \<in> set events. \<not> known_type (get e ''event_type'')"
  shows "b = no_batches"
proof -
  have "filter (\<lambda>e. known_type (get e ''event_type'')) events = []"
    using assms(2) by (simp add: filter_empty_conv)
  with partition_total [OF assms(1)] show ?thesis
    by (simp add: no_batches_def)
qed


section \<open>The inserts of one request\<close>

lemma first_rejection_Some: "first_rejection w i ps = Some (t, e) \<Longrightarrow> Inl e \<in> set ps"
  by (induction w i ps arbitrary: t e rule: first_rejection.induct)
     (auto split: option.splits if_splits)

lemma first_rejection_None: "first_rejection w i ps = None \<Longrightarrow> Inl e \<notin> set ps"
  by (induction w i ps rule: first_rejection.induct) (auto split: option.splits if_splits)

lemma promise_all_Inl: "promise_all w ps = Inl e \<Longrightarrow> Inl e \<in> set ps"
  by (auto simp: promise_all_def split: option.splits dest: first_rejection_Some)

lemma promise_all_rejects: "Inl e \<in> set ps \<Longrightarrow> \<exists>e'. promise_all w ps = Inl e'"
  by (cases "first_rejection w 0 ps") (auto simp: promise_all_def dest: first_rejection_None)

lemma promise_all_Inr:
  "(\<forall>r \<in> set ps. \<exists>v. r = Inr v) \<Longrightarrow> \<exists>vs. promise_all w ps = Inr vs"
  by (cases "promise_all w ps") (auto dest: promise_all_Inl)

lemma promise_all_Nil: "promise_all w [] = Inr []"
  by (simp add: promise_all_def)

lemma promise_all_four:
  "promise_all w [Inr a, Inr b, Inr c, Inr d] = Inr [a, b, c, d]"
  by (simp add: promise_all_def)

lemma push_insert_issued:
  "issued (snd (push_insert flt table rows ps)) =
   issued (snd ps) @ (if rows = [] then [] else [(table, rows)])"
proof (cases "rows = []")
  case True
  then show ?thesis by (simp add: push_insert_def)
next
  case False
  then show ?thesis
    using insertData_issued [OF False, of flt table "snd ps"]
    by (auto simp: push_insert_def split: prod.splits)
qed

lemma issue_inserts_issued:
  "issued (snd (issue_inserts flt b s)) = issued s @ handed_over b"
  by (simp add: issue_inserts_def push_insert_issued handed_over_def)

text \<open>
  The promises pushed by one request mirror the faults of the store at the insert calls
  the request issued.
\<close>

lemma push_insert_rejections:
  assumes "map rejection (fst ps) =
      map (\<lambda>n. map_option StoreError (flt n)) [l ..< length (issued (snd ps))]"
    and "l \<le> length (issued (snd ps))"
  shows "map rejection (fst (push_insert flt table rows ps)) =
      map (\<lambda>n. map_option StoreError (flt n))
        [l ..< length (issued (snd (push_insert flt table rows ps)))] \<and>
    l \<le> length (issued (snd (push_insert flt table rows ps)))"
proof (cases "rows = []")
  case True
  then show ?thesis using assms by (simp add: push_insert_def)
next
  case False
  obtain rs s where ps: "ps = (rs, s)" by (cases ps)
  show ?thesis
  proof (cases "flt (length (issued s))")
    case None
    then show ?thesis using assms False ps
      by (simp add: push_insert_def insertData_ok rejection_def)
  next
    case (Some m)
    then show ?thesis using assms False ps
      by (simp add: push_insert_def insertData_fail rejection_def)
  qed
qed

lemma issue_inserts_rejections:
  "map rejection (fst (issue_inserts flt b s)) =
     map (\<lambda>n. map_option StoreError (flt n))
       [length (issued s) ..< length (issued (snd (issue_inserts flt b s)))]"
proof -
  let ?p0 = "([]::(error + insert_result) list, s)"
  let ?p1 = "push_insert flt ''page_views'' (pageViews b) ?p0"
  let ?p2 = "push_insert flt ''game_interactions'' (gameInteractions b) ?p1"
  let ?p3 = "push_insert flt ''search_events'' (searchEvents b) ?p2"
  let ?I = "\<lambda>ps. map rejection (fst ps) =
      map (\<lambda>n. map_option StoreError (flt n)) [length (issued s) ..< length (issued (snd ps))]
      \<and> length (issued s) \<le> length (issued (snd ps))"
  have 0: "?I ?p0" by simp
  have 1: "?I ?p1" using 0 push_insert_rejections by blast
  have 2: "?I ?p2" using 1 push_insert_rejections by blast
  have 3: "?I ?p3" using 2 push_insert_rejections by blast
  have "?I (push_insert flt ''performance_metrics'' (performanceMetrics b) ?p3)"
    using 3 push_insert_rejections by blast
  then show ?thesis by (simp add: issue_inserts_def)
qed


lemma issue_inserts_ok:
  assumes "\<forall>n. length (issued s) \<le> n \<and> n < length (issued s) + length (handed_over b) \<longrightarrow>
    flt n = None"
  shows "\<exists>vs. promise_all w (fst (issue_inserts flt b s)) = Inr vs"
proof (rule promise_all_Inr, rule ballI)
  fix r assume "r \<in> set (fst (issue_inserts flt b s))"
  then have "rejection r \<in> set (map rejection (fst (issue_inserts flt b s)))" by simp
  then have "rejection r = None"
    unfolding issue_inserts_rejections issue_inserts_issued using assms by auto
  then show "\<exists>v. r = Inr v" by (cases r) (auto simp: rejection_def)
qed



lemma issue_inserts_none: "issue_inserts flt no_batches s = ([], s)"
  by (simp add: issue_inserts_def push_insert_def no_batches_def)

section \<open>The paths of the event tracking handler\<close>

lemma post_events_processing:
  assumes "\<not> nullish req_body" "get req_body ''events'' = JArr events" "events \<noteq> []"
    and "partition_events env events = Inr b"
  shows "post_events env True flt req_body s =
     ((case promise_all (settles env) (fst (issue_inserts flt b s)) of
         Inl e \<Rightarrow> res_status_json 500 (events_failed env e)
       | Inr _ \<Rightarrow> res_json (events_processed (length events) b)),
      snd (issue_inserts flt b s))"
  using assms by (simp add: post_events_def post_events_try_def split: prod.splits sum.splits)

lemma post_events_paths:
  "snd (post_events env c flt req_body s) = s \<or>
   (\<exists>events b. c \<and> \<not> nullish req_body \<and> get req_body ''events'' = JArr events \<and>
      events \<noteq> [] \<and> partition_events env events = Inr b)"
  by (auto simp: post_events_def post_events_try_def
      split: prod.splits sum.splits jsval.splits if_splits)

lemma post_events_bad_request:
  "\<not> nullish req_body \<Longrightarrow> \<forall>es. get req_body ''events'' = JArr es \<longrightarrow> es = [] \<Longrightarrow>
   post_events env c flt req_body s = (res_status_json 400 events_required, s)"
  by (auto simp: post_events_def post_events_try_def split: jsval.splits)

lemma post_events_status:
  "status (fst (post_events env c flt req_body s)) \<in> {200, 400, 500}"
  by (auto simp: post_events_def post_events_try_def res_json_def res_status_json_def
      split: prod.splits sum.splits jsval.splits if_splits)

lemma post_events_400_iff:
  "status (fst (post_events env c flt req_body s)) = 400 \<longleftrightarrow>
   \<not> nullish req_body \<and> (\<forall>es. get req_body ''events'' = JArr es \<longrightarrow> es = [])"
  by (auto simp: post_events_def post_events_try_def res_json_def res_status_json_def
      split: prod.splits sum.splits jsval.splits if_splits)


lemma post_events_accepted:
  assumes "\<not> nullish req_body" "get req_body ''events'' = JArr events" "events \<noteq> []"
    and "partition_events env events = Inr b"
    and "\<forall>n. length (issued s) \<le> n \<and> n < length (issued s) + length (handed_over b) \<longrightarrow>
      flt n = None"
  shows "post_events env True flt req_body s =
     (res_json (events_processed (length events) b), snd (issue_inserts flt b s))"
  using issue_inserts_ok [OF assms(5), of "settles env"]
  by (auto simp: post_events_processing [OF assms(1-4)])

lemma post_events_no_rejected_field:
  "get (body (fst (post_events env c flt req_body s))) ''rejected'' = JUndefined \<and>
   get (body (fst (post_events env c flt req_body s))) ''accepted'' = JUndefined"
  by (auto simp: post_events_def post_events_try_def res_json_def res_status_json_def
      events_required_def events_queued_def events_processed_def events_failed_def
      split: prod.splits sum.splits jsval.splits if_splits)

lemma process_event_unknown_type:
  "process_event env i e b = Inr b' \<Longrightarrow> \<not> known_type (get e ''event_type'') \<Longrightarrow> b' = b"
  by (drule process_event_Inr) (auto simp: Let_def known_type_def)

lemma post_events_queued:
  assumes "\<not> nullish req_body" "get req_body ''events'' = JArr events" "events \<noteq> []"
  shows "post_events env False flt req_body s = (res_json (events_queued (length events)), s)"
  using assms by (simp add: post_events_def post_events_try_def)

lemma store_failure_500:
  assumes "length (issued s) \<le> n"
    and "n < length (issued (snd (post_events env c flt req_body s)))"
    and "flt n = Some m0"
  shows "\<exists>k m. length (issued s) \<le> k \<and>
    k < length (issued (snd (post_events env c flt req_body s))) \<and> flt k = Some m \<and>
    fst (post_events env c flt req_body s) =
      \<lparr>status = 500, body = events_failed env (StoreError m)\<rparr>"
proof -
  from assms(1,2) have "snd (post_events env c flt req_body s) \<noteq> s" by auto
  with post_events_paths [of env c flt req_body s] obtain events b where
    c: c and p: "\<not> nullish req_body" "get req_body ''events'' = JArr events" "events \<noteq> []"
      "partition_events env events = Inr b"
    by blast
  note pe = post_events_processing [OF p, of flt s]
  let ?ps = "fst (issue_inserts flt b s)"
  let ?s' = "snd (issue_inserts flt b s)"
  have n: "n \<in> set [length (issued s) ..< length (issued ?s')]"
    using assms(1,2) c pe by simp
  have "Some (StoreError m0) \<in> set (map rejection ?ps)"
    unfolding issue_inserts_rejections using n assms(3) by force
  then have "Inl (StoreError m0) \<in> set ?ps"
    by (auto simp: rejection_def split: sum.splits)
  then obtain e where e: "promise_all (settles env) ?ps = Inl e"
    using promise_all_rejects by blast
  then have "Inl e \<in> set ?ps" by (rule promise_all_Inl)
  then have "Some e \<in> set (map rejection ?ps)"
    by (force simp: rejection_def)
  then obtain k where k: "length (issued s) \<le> k" "k < length (issued ?s')"
    and "Some e = map_option StoreError (flt k)"
    unfolding issue_inserts_rejections by auto
  then obtain m where "flt k = Some m" "e = StoreError m" by (cases "flt k") auto
  with e pe c k show ?thesis by (auto simp: res_status_json_def)
qed

section \<open>The claims about the event tracking endpoint\<close>

lemma sample_partition: "partition_events sample_env sample_events = Inr sample_batches"
  by (simp add: js_defs events_defs sample_defs statement_defs)


lemma bogus_partition: "partition_events sample_env [bogus_event] = Inr no_batches"
  by (simp add: js_defs events_defs sample_defs)

lemma events_body_get: "\<not> nullish (events_body es) \<and> get (events_body es) ''events'' = JArr es"
  by (simp add: events_body_def)

text \<open>
  Claim C1 (as amended). When an insert issued for an ingestion call fails in the store,
  the call answers with status 500 and the body \<open>{success: false, error: 'Failed to
  process analytics events', message}\<close>, where \<open>message\<close> is the store's error message
  of an insert of that call that failed. A 4xx status is answered exactly when the \<open>events\<close> of the parsed
  body is not a non-empty array (missing, not an array, or empty).
\<close>

theorem store_failure_is_surfaced:
  "(length (issued s) \<le> n \<and>
    n < length (issued (snd (post_events env c flt req_body s))) \<and> flt n = Some m0 \<longrightarrow>
      (\<exists>k m. length (issued s) \<le> k \<and>
         k < length (issued (snd (post_events env c flt req_body s))) \<and> flt k = Some m \<and>
         fst (post_events env c flt req_body s) =
           \<lparr>status = 500, body = events_failed env (StoreError m)\<rparr>)) \<and>
   (status (fst (post_events env c flt req_body s)) \<in> {400..<500} \<longleftrightarrow>
      \<not> nullish req_body \<and> (\<forall>es. get req_body ''events'' = JArr es \<longrightarrow> es = []))"
proof (intro conjI impI)
  assume "length (issued s) \<le> n \<and>
    n < length (issued (snd (post_events env c flt req_body s))) \<and> flt n = Some m0"
  then show "\<exists>k m. length (issued s) \<le> k \<and>
      k < length (issued (snd (post_events env c flt req_body s))) \<and> flt k = Some m \<and>
      fst (post_events env c flt req_body s) =
        \<lparr>status = 500, body = events_failed env (StoreError m)\<rparr>"
    using store_failure_500 by blast
next
  have "status (fst (post_events env c flt req_body s)) \<in> {400..<500} \<longleftrightarrow>
      status (fst (post_events env c flt req_body s)) = 400"
    using post_events_status [of env c flt req_body s] by auto
  then show "status (fst (post_events env c flt req_body s)) \<in> {400..<500} \<longleftrightarrow>
      \<not> nullish req_body \<and> (\<forall>es. get req_body ''events'' = JArr es \<longrightarrow> es = [])"
    by (simp only: post_events_400_iff)
qed

theorem store_failure_is_surfaced_witness:
  "length (issued empty_store) \<le> 0 \<and>
   0 < length (issued (snd (post_events sample_env True store_down
         (events_body [page_view_event ''e1'']) empty_store))) \<and>
   store_down 0 = Some ''connect ECONNREFUSED'' \<and>
   fst (post_events sample_env True store_down (events_body [page_view_event ''e1''])
       empty_store) =
     \<lparr>status = 500,
      body = events_failed sample_env (StoreError ''connect ECONNREFUSED'')\<rparr> \<and>
   status (fst (post_events sample_env True store_down (events_body [page_view_event ''e1''])
       empty_store)) \<notin> {400..<500}"
proof -
  let ?r = "post_events sample_env True store_down (events_body [page_view_event ''e1''])
    empty_store"
  have h: "length (issued empty_store) \<le> 0 \<and> 0 < length (issued (snd ?r)) \<and>
      store_down 0 = Some ''connect ECONNREFUSED''"
    by (simp add: js_defs store_defs events_defs sample_defs Let_def)
  note t = store_failure_is_surfaced [where s = empty_store and n = 0 and env = sample_env
      and c = True and flt = store_down and req_body = "events_body [page_view_event ''e1'']"
      and ?m0.0 = "''connect ECONNREFUSED''"]
  from t h obtain k m where "store_down k = Some m"
    and r: "fst ?r = \<lparr>status = 500, body = events_failed sample_env (StoreError m)\<rparr>"
    by blast
  then have "m = ''connect ECONNREFUSED''" by (simp add: store_down_def)
  with r h show ?thesis by simp
qed

text \<open>
  The claim C1 as it was stated fails: with the store down, submitting one page view is
  answered with status 500 and an error body.
\<close>

theorem store_failure_counterexample:
  "fst (post_events sample_env True store_down (events_body [page_view_event ''e1''])
       empty_store) =
     \<lparr>status = 500,
      body = JObj
        [(''success'', JBool False),
         (''error'', JStr ''Failed to process analytics events''),
         (''message'', JStr ''connect ECONNREFUSED'')]\<rparr>"
  by (simp add: js_defs store_defs events_defs sample_defs Let_def)

text \<open>
  Claim C2 (as amended). An event whose \<open>event_type\<close> is absent or is none of
  \<open>page_view\<close>, \<open>game_interaction\<close>, \<open>search\<close>, \<open>performance\<close> is put in no array:
  processing it, when it raises no type error, leaves the four arrays as they were. It
  is not reported as rejected: no response of the endpoint has a \<open>rejected\<close> or an
  \<open>accepted\<close> field. For a non-empty events array whose events raise no type error,
  the sizes of the four arrays and the number of such events add up to the number of
  submitted events. When, in addition, the store is connected and every submitted event
  is such an event, no insert is issued and the response is 200 with \<open>{success: true,
  message: 'Events processed successfully', processed: {total: N, page_views: 0,
  game_interactions: 0, search_events: 0, performance_metrics: 0}}\<close>.
\<close>

theorem unknown_type_is_skipped:
  "(process_event env i e b0 = Inr b1 \<and> \<not> known_type (get e ''event_type'') \<longrightarrow> b1 = b0) \<and>
   get (body (fst (post_events env c flt req_body s))) ''rejected'' = JUndefined \<and>
   get (body (fst (post_events env c flt req_body s))) ''accepted'' = JUndefined \<and>
   (\<not> nullish req_body \<and> get req_body ''events'' = JArr events \<and> events \<noteq> [] \<and>
    partition_events env events = Inr b \<longrightarrow>
      length (pageViews b) + length (gameInteractions b) + length (searchEvents b) +
        length (performanceMetrics b) +
        length (filter (\<lambda>e. \<not> known_type (get e ''event_type'')) events) = length events \<and>
      ((\<forall>e \<in> set events. \<not> known_type (get e ''event_type'')) \<longrightarrow>
        post_events env True flt req_body s =
          (\<lparr>status = 200, body = events_processed (length events) no_batches\<rparr>, s)))"
proof (intro conjI impI)
  show "b1 = b0"
    if "process_event env i e b0 = Inr b1 \<and> \<not> known_type (get e ''event_type'')"
    using that process_event_unknown_type by blast
  show "get (body (fst (post_events env c flt req_body s))) ''rejected'' = JUndefined"
    and "get (body (fst (post_events env c flt req_body s))) ''accepted'' = JUndefined"
    using post_events_no_rejected_field [of env c flt req_body s] by simp_all
next
  assume a: "\<not> nullish req_body \<and> get req_body ''events'' = JArr events \<and> events \<noteq> [] \<and>
    partition_events env events = Inr b"
  then have p: "partition_events env events = Inr b" by simp
  show "length (pageViews b) + length (gameInteractions b) + length (searchEvents b) +
      length (performanceMetrics b) +
      length (filter (\<lambda>e. \<not> known_type (get e ''event_type'')) events) = length events"
    using partition_total [OF p]
      sum_length_filter_compl [of "\<lambda>e. known_type (get e ''event_type'')" events]
    by simp
  assume "\<forall>e \<in> set events. \<not> known_type (get e ''event_type'')"
  then have b: "b = no_batches"
    using unknown_types_no_batches [OF p] by blast
  from a have "post_events env True flt req_body s =
     ((case promise_all (settles env) (fst (issue_inserts flt b s)) of
         Inl e \<Rightarrow> res_status_json 500 (events_failed env e)
       | Inr _ \<Rightarrow> res_json (events_processed (length events) b)),
      snd (issue_inserts flt b s))"
    using post_events_processing [of req_body events env b flt s] by blast
  then show "post_events env True flt req_body s =
      (\<lparr>status = 200, body = events_processed (length events) no_batches\<rparr>, s)"
    by (simp add: b issue_inserts_none promise_all_Nil res_json_def)
qed

theorem unknown_type_is_skipped_witness:
  "process_event sample_env 0 bogus_event no_batches = Inr no_batches \<and>
   \<not> nullish (events_body [bogus_event]) \<and>
   get (events_body [bogus_event]) ''events'' = JArr [bogus_event] \<and>
   [bogus_event] \<noteq> [] \<and>
   partition_events sample_env [bogus_event] = Inr no_batches \<and>
   \<not> known_type (get bogus_event ''event_type'') \<and>
   length (pageViews no_batches) + length (gameInteractions no_batches) +
     length (searchEvents no_batches) + length (performanceMetrics no_batches) +
     length (filter (\<lambda>e. \<not> known_type (get e ''event_type'')) [bogus_event]) = 1 \<and>
   post_events sample_env True store_down (events_body [bogus_event]) empty_store =
     (\<lparr>status = 200, body = events_processed 1 no_batches\<rparr>, empty_store)"
proof -
  have h0: "process_event sample_env 0 bogus_event no_batches = Inr no_batches"
    by (simp add: js_defs events_defs sample_defs)
  have h1: "\<not> nullish (events_body [bogus_event])"
    and h2: "get (events_body [bogus_event]) ''events'' = JArr [bogus_event]"
    by (simp_all add: events_body_def)
  have h3: "[bogus_event] \<noteq> []" by simp
  have h4: "\<not> known_type (get bogus_event ''event_type'')"
    by (simp add: bogus_event_def known_type_def)
  note h5 = bogus_partition
  note t = unknown_type_is_skipped [where flt = store_down and s = empty_store
      and env = sample_env and req_body = "events_body [bogus_event]"
      and events = "[bogus_event]" and b = no_batches and c = True]
  from t h1 h2 h3 h5 have c1: "length (pageViews no_batches) +
     length (gameInteractions no_batches) +
     length (searchEvents no_batches) + length (performanceMetrics no_batches) +
     length (filter (\<lambda>e. \<not> known_type (get e ''event_type'')) [bogus_event]) =
     length [bogus_event]"
    by blast
  from t h1 h2 h3 h4 h5 have c2: "post_events sample_env True store_down
      (events_body [bogus_event]) empty_store =
      (\<lparr>status = 200, body = events_processed (length [bogus_event]) no_batches\<rparr>,
       empty_store)"
    by simp
  from h0 h1 h2 h3 h4 h5 c1 c2 show ?thesis by simp
qed

text \<open>
  The claim C2 as it was stated fails: one event of kind \<open>bogus\<close> is answered with
  status 200 and a body that counts it in \<open>total\<close> and has neither \<open>accepted\<close> nor
  \<open>rejected\<close>.
\<close>

theorem unknown_kind_counterexample:
  "fst (post_events sample_env True no_fault (events_body [bogus_event]) empty_store) =
     \<lparr>status = 200,
      body = JObj
        [(''success'', JBool True),
         (''message'', JStr ''Events processed successfully''),
         (''processed'', JObj
            [(''total'', JNum 1),
             (''page_views'', JNum 0),
             (''game_interactions'', JNum 0),
             (''search_events'', JNum 0),
             (''performance_metrics'', JNum 0)])]\<rparr> \<and>
   get (body (fst (post_events sample_env True no_fault (events_body [bogus_event])
     empty_store))) ''rejected'' = JUndefined \<and>
   get (body (fst (post_events sample_env True no_fault (events_body [bogus_event])
     empty_store))) ''accepted'' = JUndefined"
  by (simp add: js_defs store_defs events_defs sample_defs Let_def)

text \<open>
  Claim C3 (as amended). For every non-empty events array accepted by the ingestion API
  the response has status 200, with one of two bodies. An array is accepted when the
  store is not connected, and then the body is \<open>{success: true, message: 'Events queued
  for processing', processed: N}\<close>; and it is accepted when the store is connected, no
  event raises a type error and none of the inserts of the request fails, and then the
  body is \<open>{success: true,
  message: 'Events processed successfully', processed: {total, page_views,
  game_interactions, search_events, performance_metrics}}\<close> with \<open>total\<close> the number
  of submitted events and the other four the sizes of the four arrays.
\<close>

theorem post_events_success_response:
  assumes "\<not> nullish req_body" and "get req_body ''events'' = JArr events" and "events \<noteq> []"
  shows "fst (post_events env False flt req_body s) =
      \<lparr>status = 200, body = events_queued (length events)\<rparr> \<and>
    (partition_events env events = Inr b \<and>
     (\<forall>n. length (issued s) \<le> n \<and> n < length (issued s) + length (handed_over b) \<longrightarrow>
        flt n = None) \<longrightarrow>
      fst (post_events env True flt req_body s) =
        \<lparr>status = 200, body = events_processed (length events) b\<rparr>)"
  using post_events_queued [OF assms, of env flt s]
    post_events_accepted [OF assms, of env b s flt]
  by (simp add: res_json_def)

theorem post_events_success_response_witness:
  "\<not> nullish (events_body sample_events) \<and>
   get (events_body sample_events) ''events'' = JArr sample_events \<and>
   sample_events \<noteq> [] \<and>
   partition_events sample_env sample_events = Inr sample_batches \<and>
   (\<forall>n. no_fault n = None) \<and>
   fst (post_events sample_env False no_fault (events_body sample_events) empty_store) =
     \<lparr>status = 200, body = events_queued 4\<rparr> \<and>
   fst (post_events sample_env True no_fault (events_body sample_events) empty_store) =
     \<lparr>status = 200, body = events_processed 4 sample_batches\<rparr>"
proof -
  have h1: "\<not> nullish (events_body sample_events)"
    and h2: "get (events_body sample_events) ''events'' = JArr sample_events"
    by (simp_all add: events_body_def)
  have h3: "sample_events \<noteq> []" by (simp add: sample_events_def)
  have h4: "\<forall>n. no_fault n = None" by (simp add: no_fault_def)
  have l: "length sample_events = 4" by (simp add: sample_events_def)
  note t = post_events_success_response [where env = sample_env and flt = no_fault
      and s = empty_store and b = sample_batches, OF h1 h2 h3]
  from t have c1: "fst (post_events sample_env False no_fault (events_body sample_events)
      empty_store) = \<lparr>status = 200, body = events_queued 4\<rparr>"
    by (simp add: l)
  from t sample_partition h4 have c2: "fst (post_events sample_env True no_fault
      (events_body sample_events) empty_store) =
      \<lparr>status = 200, body = events_processed 4 sample_batches\<rparr>"
    by (simp add: l)
  from h1 h2 h3 h4 sample_partition c1 c2 show ?thesis by blast
qed

text \<open>
  The claim C3 as it was stated fails: a submitted page view is answered with status
  200, not 202, and the body has none of \<open>accepted\<close>, \<open>rejected\<close>, \<open>dead_lettered\<close>.
\<close>

theorem accepted_status_counterexample:
  "status (fst (post_events sample_env True no_fault (events_body [page_view_event ''e1''])
     empty_store)) = 200 \<and>
   body (fst (post_events sample_env True no_fault (events_body [page_view_event ''e1''])
     empty_store)) =
     JObj
       [(''success'', JBool True),
        (''message'', JStr ''Events processed successfully''),
        (''processed'', JObj
           [(''total'', JNum 1),
            (''page_views'', JNum 1),
            (''game_interactions'', JNum 0),
            (''search_events'', JNum 0),
            (''performance_metrics'', JNum 0)])]"
  by (simp add: js_defs store_defs events_defs sample_defs Let_def)

text \<open>
  Claim C4 (as amended). Submitting an empty events array is answered with status 400
  and the body \<open>{success: false, error: 'Events array is required'}\<close>; the store is not
  touched.
\<close>

theorem empty_events_is_400:
  assumes "\<not> nullish req_body" and "get req_body ''events'' = JArr []"
  shows "post_events env c flt req_body s = (\<lparr>status = 400, body = events_required\<rparr>, s)"
  using post_events_bad_request [OF assms(1), of env c flt s] assms(2)
  by (simp add: res_status_json_def)

theorem empty_events_is_400_witness:
  "\<not> nullish (events_body []) \<and>
   get (events_body []) ''events'' = JArr [] \<and>
   post_events sample_env True no_fault (events_body []) empty_store =
     (\<lparr>status = 400, body = events_required\<rparr>, empty_store)"
proof -
  have h1: "\<not> nullish (events_body [])" and h2: "get (events_body []) ''events'' = JArr []"
    by (simp_all add: events_body_def)
  show ?thesis
    using h1 h2
      empty_events_is_400 [where env = sample_env and c = True and flt = no_fault
        and s = empty_store, OF h1 h2]
    by simp
qed

text \<open>The claim C4 as it was stated fails: the empty array is answered with status 400.\<close>

theorem empty_array_counterexample:
  "post_events sample_env True no_fault (events_body []) empty_store =
     (\<lparr>status = 400,
       body = JObj
         [(''success'', JBool False), (''error'', JStr ''Events array is required'')]\<rparr>,
      empty_store)"
  by (simp add: js_defs store_defs events_defs sample_defs)




text \<open>
  Claim C9. The events of a request are sorted into the four arrays without overlap:
  each array holds exactly the rows of the submitted events of its own kind, in the
  order of submission, and an event has one kind only; so the sizes of the four arrays
  add up to the number of events of a known kind and no event is in two of them. Each non-empty array is handed to the
  store once, by one insert into its own table.
\<close>

theorem batches_partition_events:
  assumes "\<not> nullish req_body" and "get req_body ''events'' = JArr events" and "events \<noteq> []"
    and "partition_events env events = Inr b"
  shows "pageViews b =
      map (page_view_at env) (filter (has_type ''page_view'') (enumerate 0 events)) \<and>
    gameInteractions b =
      map (game_interaction_at env) (filter (has_type ''game_interaction'') (enumerate 0 events)) \<and>
    searchEvents b =
      map (search_at env) (filter (has_type ''search'') (enumerate 0 events)) \<and>
    performanceMetrics b =
      map (performance_at env) (filter (has_type ''performance'') (enumerate 0 events)) \<and>
    length (pageViews b) + length (gameInteractions b) + length (searchEvents b) +
      length (performanceMetrics b) =
      length (filter (\<lambda>e. known_type (get e ''event_type'')) events) \<and>
    length (pageViews b) + length (gameInteractions b) + length (searchEvents b) +
      length (performanceMetrics b) \<le> length events \<and>
    (\<forall>t t' p. has_type t p \<and> has_type t' p \<longrightarrow> t = t') \<and>
    issued (snd (post_events env True flt req_body s)) = issued s @ handed_over b"
proof -
  have s': "snd (post_events env True flt req_body s) = snd (issue_inserts flt b s)"
    using post_events_processing [OF assms, of flt s] by simp
  have le: "length (filter (\<lambda>e. known_type (get e ''event_type'')) events) \<le> length events"
    by (rule length_filter_le)
  have one: "\<forall>t t' p. has_type t p \<and> has_type t' p \<longrightarrow> t = t'"
    by (auto simp: has_type_def)
  show ?thesis
    using partition_rows [OF assms(4)] partition_total [OF assms(4)] le one
    by (simp add: s' issue_inserts_issued)
qed

theorem batches_partition_events_witness:
  "\<not> nullish (events_body sample_events) \<and>
   get (events_body sample_events) ''events'' = JArr sample_events \<and>
   sample_events \<noteq> [] \<and>
   partition_events sample_env sample_events = Inr sample_batches \<and>
   length (pageViews sample_batches) + length (gameInteractions sample_batches) +
     length (searchEvents sample_batches) + length (performanceMetrics sample_batches) = 3 \<and>
   length (filter (\<lambda>e. known_type (get e ''event_type'')) sample_events) = 3 \<and>
   issued (snd (post_events sample_env True no_fault (events_body sample_events) empty_store)) =
     [(''page_views'', pageViews sample_batches),
      (''search_events'', searchEvents sample_batches)]"
proof -
  have h1: "\<not> nullish (events_body sample_events)"
    and h2: "get (events_body sample_events) ''events'' = JArr sample_events"
    by (simp_all add: events_body_def)
  have h3: "sample_events \<noteq> []" by (simp add: sample_events_def)
  note h4 = sample_partition
  have n: "length (pageViews sample_batches) + length (gameInteractions sample_batches) +
     length (searchEvents sample_batches) + length (performanceMetrics sample_batches) = 3"
    by (simp add: sample_batches_def)
  have o: "issued empty_store @ handed_over sample_batches =
     [(''page_views'', pageViews sample_batches),
      (''search_events'', searchEvents sample_batches)]"
    by (simp add: empty_store_def handed_over_def sample_batches_def)
  note t = batches_partition_events [where s = empty_store and flt = no_fault, OF h1 h2 h3 h4]
  from t have c1: "length (filter (\<lambda>e. known_type (get e ''event_type'')) sample_events) = 3"
    by (simp only: n)
  from t have c2: "issued (snd (post_events sample_env True no_fault
       (events_body sample_events) empty_store)) =
     [(''page_views'', pageViews sample_batches),
      (''search_events'', searchEvents sample_batches)]"
    by (simp only: o)
  from h1 h2 h3 h4 n c1 c2 show ?thesis by blast
qed

section \<open>The claims about the dashboard endpoint\<close>

lemma dashboard_results_rejected:
  assumes "template_text (timeRange_of q) = Some rangeText"
    and "Inl e \<in> set [getRealTimeMetrics exec (timeRange_of q),
      getGamePopularity exec ''7 DAY'', getConversionFunnel exec ''7 DAY'',
      getUserBehaviorMetrics exec ''7 DAY'']"
  shows "\<exists>query m. query \<in> set (dashboard_queries rangeText) \<and> exec query = Inl m \<and>
    e = StoreError m"
  using assms
  by (auto simp: dashboard_queries_def getRealTimeMetrics_def getGamePopularity_def
      getConversionFunnel_def getUserBehaviorMetrics_def executeQuery_def split: sum.splits)

lemma get_dashboard_rejected:
  assumes "template_text (timeRange_of q) = Some rangeText"
    and "exec (realtime_query rangeText) = Inl m"
  shows "\<exists>query m'. query \<in> set (dashboard_queries rangeText) \<and> exec query = Inl m' \<and>
     get_dashboard env True exec q =
       \<lparr>status = 500, body = dashboard_failed env (StoreError m')\<rparr>"
proof -
  let ?ps = "[getRealTimeMetrics exec (timeRange_of q),
      getGamePopularity exec ''7 DAY'', getConversionFunnel exec ''7 DAY'',
      getUserBehaviorMetrics exec ''7 DAY'']"
  have "Inl (StoreError m) \<in> set ?ps"
    using assms by (simp add: getRealTimeMetrics_def executeQuery_def)
  then obtain e where e: "promise_all (settles env) ?ps = Inl e"
    using promise_all_rejects by blast
  then have "Inl e \<in> set ?ps" by (rule promise_all_Inl)
  from dashboard_results_rejected [OF assms(1) this] obtain query m' where
    "query \<in> set (dashboard_queries rangeText)" "exec query = Inl m'" "e = StoreError m'"
    by blast
  with e show ?thesis
    by (auto simp: get_dashboard_def Let_def res_status_json_def)
qed

lemma get_dashboard_only_realtime_rejected:
  assumes "template_text (timeRange_of q) = Some rangeText"
    and "exec (realtime_query rangeText) = Inl m"
    and "exec (game_popularity_query ''7 DAY'') = Inr gamePopularity"
    and "exec (conversion_funnel_query ''7 DAY'') = Inr conversionFunnel"
    and "exec (user_behavior_query ''7 DAY'') = Inr userBehavior"
  shows "get_dashboard env True exec q =
     \<lparr>status = 500, body = dashboard_failed env (StoreError m)\<rparr>"
  using assms
  by (simp add: get_dashboard_def Let_def res_status_json_def promise_all_def
      getRealTimeMetrics_def getGamePopularity_def getConversionFunnel_def
      getUserBehaviorMetrics_def executeQuery_def)

lemma get_dashboard_not_convertible:
  assumes "template_text (timeRange_of q) = None"
  shows "status (get_dashboard env True exec q) = 500"
proof -
  let ?ps = "[getRealTimeMetrics exec (timeRange_of q),
      getGamePopularity exec ''7 DAY'', getConversionFunnel exec ''7 DAY'',
      getUserBehaviorMetrics exec ''7 DAY'']"
  have "Inl (TypeError NotConvertible) \<in> set ?ps"
    using assms by (simp add: getRealTimeMetrics_def)
  then obtain e where "promise_all (settles env) ?ps = Inl e"
    using promise_all_rejects by blast
  then show ?thesis
    by (simp add: get_dashboard_def Let_def res_status_json_def)
qed

lemma get_dashboard_statuses:
  "status (get_dashboard env c exec q) \<in> {200, 500, 503} \<and>
   get (body (get_dashboard env c exec q)) ''reason'' = JUndefined"
  by (auto simp: get_dashboard_def Let_def res_json_def res_status_json_def
      dashboard_unavailable_def dashboard_failed_def dashboard_data_def
      split: sum.splits list.splits)

lemma summary_of_no_rows: "dashboard_summary env [] [] = zero_summary"
  by (simp add: dashboard_summary_def reduce_sum_def reduce_avg_def zero_summary_def)

text \<open>
  Claim C7 (as amended). The range parameter of a dashboard query is not validated: it
  is spliced into the text of the real-time query as it is, and when the store rejects
  that query the response is 500 with \<open>{success: false, error: 'Failed to fetch
  dashboard analytics', message}\<close>, \<open>message\<close> being the store's error message for one
  of the four queries of the request that it rejected, and the one for the real-time
  query when the other three succeed. A range that cannot be converted to a string is
  answered with 500 as well. Every dashboard response has status 200, 500 or 503, never
  400, and none has a \<open>reason\<close> field.
\<close>

theorem dashboard_range_not_validated:
  "(template_text (timeRange_of q) = Some rangeText \<and> exec (realtime_query rangeText) = Inl m \<longrightarrow>
      (\<exists>query m'. query \<in> set (dashboard_queries rangeText) \<and> exec query = Inl m' \<and>
         get_dashboard env True exec q =
           \<lparr>status = 500, body = dashboard_failed env (StoreError m')\<rparr>)) \<and>
   (template_text (timeRange_of q) = Some rangeText \<and> exec (realtime_query rangeText) = Inl m \<and>
    exec (game_popularity_query ''7 DAY'') = Inr gamePopularity \<and>
    exec (conversion_funnel_query ''7 DAY'') = Inr conversionFunnel \<and>
    exec (user_behavior_query ''7 DAY'') = Inr userBehavior \<longrightarrow>
      get_dashboard env True exec q =
        \<lparr>status = 500, body = dashboard_failed env (StoreError m)\<rparr>) \<and>
   (template_text (timeRange_of q) = None \<longrightarrow> status (get_dashboard env True exec q) = 500) \<and>
   status (get_dashboard env c exec q) \<in> {200, 500, 503} \<and>
   get (body (get_dashboard env c exec q)) ''reason'' = JUndefined"
  using get_dashboard_rejected [of q rangeText exec m env]
    get_dashboard_only_realtime_rejected [of q rangeText exec m gamePopularity conversionFunnel
      userBehavior env]
    get_dashboard_not_convertible [of q env exec]
    get_dashboard_statuses [of env c exec q]
  by blast

theorem dashboard_range_not_validated_witness:
  "template_text (timeRange_of (Some (QStr ''abc''))) = Some ''abc'' \<and>
   rejects_range ''abc'' (realtime_query ''abc'') = Inl ''Syntax error'' \<and>
   rejects_range ''abc'' (game_popularity_query ''7 DAY'') = Inr [] \<and>
   rejects_range ''abc'' (conversion_funnel_query ''7 DAY'') = Inr [] \<and>
   rejects_range ''abc'' (user_behavior_query ''7 DAY'') = Inr [] \<and>
   get_dashboard sample_env True (rejects_range ''abc'') (Some (QStr ''abc'')) =
     \<lparr>status = 500, body = dashboard_failed sample_env (StoreError ''Syntax error'')\<rparr> \<and>
   template_text (timeRange_of (Some (QObj [(''toString'', QStr ''x'')]))) = None \<and>
   status (get_dashboard sample_env True no_rows (Some (QObj [(''toString'', QStr ''x'')]))) =
     500 \<and>
   status (get_dashboard sample_env True (rejects_range ''abc'') (Some (QStr ''abc'')))
     \<in> {200, 500, 503} \<and>
   get (body (get_dashboard sample_env True (rejects_range ''abc'') (Some (QStr ''abc''))))
     ''reason'' = JUndefined"
proof -
  have h0: "template_text (timeRange_of (Some (QStr ''abc''))) = Some ''abc''"
    by (simp add: timeRange_of_def)
  have h1: "rejects_range ''abc'' (realtime_query ''abc'') = Inl ''Syntax error''"
    by (simp add: rejects_range_def)
  have h2: "rejects_range ''abc'' (game_popularity_query ''7 DAY'') = Inr []"
    and h3: "rejects_range ''abc'' (conversion_funnel_query ''7 DAY'') = Inr []"
    and h4: "rejects_range ''abc'' (user_behavior_query ''7 DAY'') = Inr []"
    by (simp_all add: rejects_range_def realtime_query_def game_popularity_query_def
        conversion_funnel_query_def user_behavior_query_def)
  have h5: "template_text (timeRange_of (Some (QObj [(''toString'', QStr ''x'')]))) = None"
    by (simp add: timeRange_of_def)
  note t = dashboard_range_not_validated [where exec = "rejects_range ''abc''"
      and q = "Some (QStr ''abc'')" and rangeText = "''abc''" and m = "''Syntax error''"
      and env = sample_env and c = True and gamePopularity = "[]"
      and conversionFunnel = "[]" and userBehavior = "[]"]
  note u = dashboard_range_not_validated [where exec = no_rows
      and q = "Some (QObj [(''toString'', QStr ''x'')])" and env = sample_env]
  from u h5 have c5: "status (get_dashboard sample_env True no_rows
      (Some (QObj [(''toString'', QStr ''x'')]))) = 500"
    by blast
  from t h0 h1 h2 h3 h4 h5 c5 show ?thesis by blast
qed

text \<open>
  The claim C7 as it was stated fails: a range that the store rejects is answered with
  status 500.
\<close>

theorem malformed_range_counterexample:
  "get_dashboard sample_env True (rejects_range ''abc'') (Some (QStr ''abc'')) =
     \<lparr>status = 500,
       body = JObj
         [(''success'', JBool False),
          (''error'', JStr ''Failed to fetch dashboard analytics''),
          (''message'', JStr ''Syntax error'')]\<rparr>"
  by (simp add: dashboard_defs js_defs sample_defs)

text \<open>
  Claim C8 (as amended). For a dashboard query with the store connected, whose four
  queries succeed and whose real-time query over the requested range and user-behaviour
  query over the last seven days both return no rows, the response is 200 with a view
  whose summary counts and averages are all zero; it is not an error response. The two
  averages come from the seven-day user-behaviour rows, whatever range was requested.
\<close>

theorem dashboard_zero_view:
  assumes "template_text (timeRange_of q) = Some rangeText"
    and "exec (realtime_query rangeText) = Inr []"
    and "exec (game_popularity_query ''7 DAY'') = Inr gamePopularity"
    and "exec (conversion_funnel_query ''7 DAY'') = Inr conversionFunnel"
    and "exec (user_behavior_query ''7 DAY'') = Inr []"
  shows "get_dashboard env True exec q =
     \<lparr>status = 200,
      body = dashboard_data zero_summary [] gamePopularity conversionFunnel []
        (qs_value (timeRange_of q))\<rparr>"
  using assms
  by (simp add: get_dashboard_def Let_def getRealTimeMetrics_def getGamePopularity_def
      getConversionFunnel_def getUserBehaviorMetrics_def executeQuery_def promise_all_four
      summary_of_no_rows res_json_def)

theorem dashboard_zero_view_witness:
  "template_text (timeRange_of (Some (QStr ''24 HOUR''))) = Some ''24 HOUR'' \<and>
   no_rows (realtime_query ''24 HOUR'') = Inr [] \<and>
   no_rows (game_popularity_query ''7 DAY'') = Inr [] \<and>
   no_rows (conversion_funnel_query ''7 DAY'') = Inr [] \<and>
   no_rows (user_behavior_query ''7 DAY'') = Inr [] \<and>
   get_dashboard sample_env True no_rows (Some (QStr ''24 HOUR'')) =
     \<lparr>status = 200, body = dashboard_data zero_summary [] [] [] [] (JStr ''24 HOUR'')\<rparr>"
proof -
  have h0: "template_text (timeRange_of (Some (QStr ''24 HOUR''))) = Some ''24 HOUR''"
    by (simp add: timeRange_of_def)
  have h: "no_rows (realtime_query ''24 HOUR'') = Inr []"
      "no_rows (game_popularity_query ''7 DAY'') = Inr []"
      "no_rows (conversion_funnel_query ''7 DAY'') = Inr []"
      "no_rows (user_behavior_query ''7 DAY'') = Inr []"
    by (simp_all add: no_rows_def)
  note t = dashboard_zero_view [where exec = no_rows and env = sample_env, OF h0 h]
  have v: "qs_value (timeRange_of (Some (QStr ''24 HOUR''))) = JStr ''24 HOUR''"
    by (simp add: timeRange_of_def)
  from t have c: "get_dashboard sample_env True no_rows (Some (QStr ''24 HOUR'')) =
     \<lparr>status = 200, body = dashboard_data zero_summary [] [] [] [] (JStr ''24 HOUR'')\<rparr>"
    by (simp only: v)
  from h0 h c show ?thesis by blast
qed

text \<open>
  The claim C8 as it was stated fails: with no page view in the last minute and one day
  of sessions in the last week, the dashboard for the range \<open>1 MINUTE\<close> has real-time
  rows and counts of zero, and averages that are not zero.
\<close>

theorem zero_range_counterexample:
  "sessions_last_week (realtime_query ''1 MINUTE'') = Inr [] \<and>
   get_dashboard sample_env True sessions_last_week (Some (QStr ''1 MINUTE'')) =
     \<lparr>status = 200,
       body = JObj
         [(''success'', JBool True),
          (''data'', JObj
             [(''summary'', JObj
                 [(''total_page_views'', JNum 0),
                  (''total_sessions'', JNum 0),
                  (''total_users'', JNum 0),
                  (''avg_session_duration'', JNum 120),
                  (''bounce_rate'', JNum 50)]),
              (''realtime_metrics'', JArr []),
              (''top_games'', JArr []),
              (''conversion_funnel'', JArr []),
              (''daily_metrics'', JArr
                 [JObj [(''date'', JStr ''2025-01-18 00:00:00''),
                        (''total_sessions'', JNum 4),
                        (''avg_session_duration'', JNum 120),
                        (''bounce_rate'', JNum 50)]]),
              (''timeRange'', JStr ''1 MINUTE'')])]\<rparr>"
  by (simp add: dashboard_defs js_defs sample_defs Let_def)

end
